theory Spec2Isabelle
  imports Complex_Main "HOL-Library.Word"
begin

section \<open>JavaScript strings and JSON values\<close>

text \<open>
  A JavaScript string is a sequence of 16-bit code units, so \<open>length\<close> is the
  \<^verbatim>\<open>.length\<close> of the source. \<open>ascii\<close> writes a literal of ASCII characters;
  a character beyond ASCII is given by its code unit.
\<close>

type_synonym jschar = "16 word"
type_synonym jsstring = "jschar list"

definition ascii :: "string \<Rightarrow> jsstring" where
  "ascii s = map of_char s"

definition LF :: jschar where "LF = 0x0A"
definition CR :: jschar where "CR = 0x0D"

text \<open>
  The values \<^verbatim>\<open>JSON.parse\<close> produces, and \<^verbatim>\<open>undefined\<close>. A number is an exact
  real: rounding, overflow and NaN of IEEE doubles are outside this development.
  An object lists its own properties; the first binding of a key is the one read.
\<close>

datatype jsval =
    JUndefined
  | JNull
  | JBool bool
  | JNum real
  | JStr jsstring
  | JArr "jsval list"
  | JObj "(jsstring \<times> jsval) list"

datatype error = TypeError | Unsupported

fun truthy :: "jsval \<Rightarrow> bool" where
  "truthy JUndefined = False"
| "truthy JNull = False"
| "truthy (JBool b) = b"
| "truthy (JNum r) = (r \<noteq> 0)"
| "truthy (JStr s) = (s \<noteq> [])"
| "truthy (JArr xs) = True"
| "truthy (JObj kvs) = True"

fun nullish :: "jsval \<Rightarrow> bool" where
  "nullish JUndefined = True"
| "nullish JNull = True"
| "nullish v = False"

text \<open>
  \<^verbatim>\<open>v.name\<close> on a value that is neither null nor undefined, for the property names
  this program reads (message, history, role, content, results, flagged, data,
  embedding, choices, id, text): none of them is defined by a built-in prototype,
  so only an object's own property can answer.
\<close>

fun own_prop :: "jsval \<Rightarrow> jsstring \<Rightarrow> jsval" where
  "own_prop (JObj kvs) k = (case map_of kvs k of Some v \<Rightarrow> v | None \<Rightarrow> JUndefined)"
| "own_prop v k = JUndefined"

text \<open>\<^verbatim>\<open>v.name\<close>: reading a property of null or undefined throws.\<close>

definition get_prop :: "jsval \<Rightarrow> jsstring \<Rightarrow> error + jsval" where
  "get_prop v k = (if nullish v then Inl TypeError else Inr (own_prop v k))"

text \<open>\<^verbatim>\<open>v?.name\<close>: optional chaining answers undefined instead.\<close>

definition opt_prop :: "jsval \<Rightarrow> jsstring \<Rightarrow> jsval" where
  "opt_prop v k = (if nullish v then JUndefined else own_prop v k)"

definition digit :: "nat \<Rightarrow> jschar" where
  "digit n = of_nat (48 + n)"

fun decimal :: "nat \<Rightarrow> jsstring" where
  "decimal n = (if n < 10 then [digit n] else decimal (n div 10) @ [digit (n mod 10)])"

declare decimal.simps [simp del]

text \<open>\<^verbatim>\<open>v?.[i]\<close>: an array element, a one-unit string, or an object's property.\<close>

fun opt_index :: "jsval \<Rightarrow> nat \<Rightarrow> jsval" where
  "opt_index (JArr xs) i = (if i < length xs then xs ! i else JUndefined)"
| "opt_index (JStr s) i = (if i < length s then JStr [s ! i] else JUndefined)"
| "opt_index (JObj kvs) i = own_prop (JObj kvs) (decimal i)"
| "opt_index v i = JUndefined"

text \<open>
  \<^verbatim>\<open>String(v)\<close>, \<^verbatim>\<open>v.toString()\<close> on a truthy value, and \<^verbatim>\<open>${v}\<close> in a template.
  The digits of a number are the engine's business: \<open>N\<close> stands for
  \<^verbatim>\<open>Number.prototype.toString\<close>. An object that carries an own property named
  toString has no callable conversion (a JSON value is never a function), and the
  conversion throws; any other object prints as \<^verbatim>\<open>[object Object]\<close>. An array joins
  its elements with commas, null and undefined printing as nothing.
\<close>

definition join :: "jsstring \<Rightarrow> jsstring list \<Rightarrow> jsstring" where
  "join sep xs = (case xs of [] \<Rightarrow> [] | y # ys \<Rightarrow> y @ concat (map (\<lambda>z. sep @ z) ys))"

fun sequence :: "(error + 'a) list \<Rightarrow> error + 'a list" where
  "sequence [] = Inr []"
| "sequence (x # xs) =
     (case x of Inl e \<Rightarrow> Inl e
      | Inr y \<Rightarrow> (case sequence xs of Inl e \<Rightarrow> Inl e | Inr ys \<Rightarrow> Inr (y # ys)))"

fun js_String :: "(real \<Rightarrow> jsstring) \<Rightarrow> jsval \<Rightarrow> error + jsstring" where
  "js_String N JUndefined = Inr (ascii ''undefined'')"
| "js_String N JNull = Inr (ascii ''null'')"
| "js_String N (JBool b) = Inr (if b then ascii ''true'' else ascii ''false'')"
| "js_String N (JNum r) = Inr (N r)"
| "js_String N (JStr s) = Inr s"
| "js_String N (JArr xs) =
     (case sequence (map (\<lambda>x. if nullish x then Inr [] else js_String N x) xs) of
        Inl e \<Rightarrow> Inl e
      | Inr parts \<Rightarrow> Inr (join (ascii '','') parts))"
| "js_String N (JObj kvs) =
     (if map_of kvs (ascii ''toString'') \<noteq> None then Inl TypeError
      else Inr (ascii ''[object Object]''))"

subsection \<open>String built-ins\<close>

text \<open>
  The code units \<^verbatim>\<open>trim()\<close> strips and the regular expression class \<^verbatim>\<open>\s\<close>
  matches: ECMAScript's WhiteSpace and LineTerminator.
\<close>

definition isWhiteSpace :: "jschar \<Rightarrow> bool" where
  "isWhiteSpace c \<longleftrightarrow>
     c = 0x09 \<or> c = 0x0A \<or> c = 0x0B \<or> c = 0x0C \<or> c = 0x0D \<or> c = 0x20 \<or> c = 0xA0 \<or>
     c = 0x1680 \<or> (0x2000 \<le> c \<and> c \<le> 0x200A) \<or> c = 0x2028 \<or> c = 0x2029 \<or>
     c = 0x202F \<or> c = 0x205F \<or> c = 0x3000 \<or> c = 0xFEFF"

definition trim :: "jsstring \<Rightarrow> jsstring" where
  "trim s = rev (dropWhile isWhiteSpace (rev (dropWhile isWhiteSpace s)))"

definition startsWith :: "jsstring \<Rightarrow> jsstring \<Rightarrow> bool" where
  "startsWith s p \<longleftrightarrow> take (length p) s = p"

text \<open>\<^verbatim>\<open>chunk.split(/\r?\n/)\<close>: a line feed, with the carriage return before it if any, ends a piece.\<close>

fun splitLines :: "jsstring \<Rightarrow> jsstring list" where
  "splitLines [] = [[]]"
| "splitLines [c] = (if c = LF then [[], []] else [[c]])"
| "splitLines (c # d # cs) =
     (if c = CR \<and> d = LF then [] # splitLines cs
      else if c = LF then [] # splitLines (d # cs)
      else (case splitLines (d # cs) of [] \<Rightarrow> [[c]] | l # ls \<Rightarrow> (c # l) # ls))"

text \<open>
  \<^verbatim>\<open>JSON.stringify\<close> of a string: quotes around it, the short escapes, and
  \<^verbatim>\<open>\uXXXX\<close> for the other control characters and for a surrogate without its pair.
\<close>

definition hexdigit :: "nat \<Rightarrow> jschar" where
  "hexdigit n = (if n < 10 then of_nat (48 + n) else of_nat (87 + n))"

definition unicodeEscape :: "jschar \<Rightarrow> jsstring" where
  "unicodeEscape c =
     [0x5C, 0x75, hexdigit (unat c div 4096), hexdigit (unat c div 256 mod 16),
      hexdigit (unat c div 16 mod 16), hexdigit (unat c mod 16)]"

definition isLeadingSurrogate :: "jschar \<Rightarrow> bool" where
  "isLeadingSurrogate c \<longleftrightarrow> 0xD800 \<le> c \<and> c \<le> 0xDBFF"

definition isTrailingSurrogate :: "jschar \<Rightarrow> bool" where
  "isTrailingSurrogate c \<longleftrightarrow> 0xDC00 \<le> c \<and> c \<le> 0xDFFF"

definition escapeUnit :: "jschar \<Rightarrow> jsstring" where
  "escapeUnit c =
     (if c = 0x08 then [0x5C, 0x62]
      else if c = 0x09 then [0x5C, 0x74]
      else if c = 0x0A then [0x5C, 0x6E]
      else if c = 0x0C then [0x5C, 0x66]
      else if c = 0x0D then [0x5C, 0x72]
      else if c = 0x22 then [0x5C, 0x22]
      else if c = 0x5C then [0x5C, 0x5C]
      else if c < 0x20 \<or> isLeadingSurrogate c \<or> isTrailingSurrogate c then unicodeEscape c
      else [c])"

fun quoteBody :: "jsstring \<Rightarrow> jsstring" where
  "quoteBody [] = []"
| "quoteBody [c] = escapeUnit c"
| "quoteBody (c # d # cs) =
     (if isLeadingSurrogate c \<and> isTrailingSurrogate d then c # d # quoteBody cs
      else escapeUnit c @ quoteBody (d # cs))"

definition JSON_stringify :: "jsstring \<Rightarrow> jsstring" where
  "JSON_stringify s = [0x22] @ quoteBody s @ [0x22]"

section \<open>server.js: utilities\<close>

definition msg_invalid :: jsstring where
  "msg_invalid = ascii ''El mensaje est'' @ [0xE1] @ ascii '' vac'' @ [0xED] @ ascii ''o o no es v'' @ [0xE1] @ ascii ''lido.''"

definition msg_empty :: jsstring where
  "msg_empty = ascii ''El mensaje est'' @ [0xE1] @ ascii '' vac'' @ [0xED] @ ascii ''o.''"

definition msg_too_long :: jsstring where
  "msg_too_long = ascii ''Mensaje demasiado largo.''"

text \<open>\<^verbatim>\<open>validateMessageText\<close>: the error text, or \<open>None\<close> for the source's null.\<close>

fun validateMessageText :: "jsval \<Rightarrow> jsstring option" where
  "validateMessageText (JStr s) =
     (if s = [] then Some msg_invalid
      else if length (trim s) = 0 then Some msg_empty
      else if length s > 8000 then Some msg_too_long
      else None)"
| "validateMessageText v = Some msg_invalid"

subsection \<open>Similarity\<close>

text \<open>
  A numeric array: an element is a number, or \<open>None\<close> where the source array holds
  undefined, null or a hole. \<^verbatim>\<open>a[i] || 0\<close> reads 0 there, and also where the
  element is the number 0, and beyond the end of the array.
\<close>

type_synonym vec = "real option list"

definition elemAt :: "vec \<Rightarrow> nat \<Rightarrow> real option" where
  "elemAt a i = (if i < length a then a ! i else None)"

definition orZero :: "real option \<Rightarrow> real" where
  "orZero x = (case x of None \<Rightarrow> 0 | Some r \<Rightarrow> r)"

function dot_loop :: "vec \<Rightarrow> vec \<Rightarrow> nat \<Rightarrow> real \<Rightarrow> real" where
  "dot_loop a b i s =
     (if i < length a then dot_loop a b (i + 1) (s + orZero (elemAt a i) * orZero (elemAt b i))
      else s)"
  by pat_completeness auto
termination
  by (relation "measure (\<lambda>(a, b, i, s). length a - i)") auto

declare dot_loop.simps [simp del]

definition dot :: "vec \<Rightarrow> vec \<Rightarrow> real" where
  "dot a b = dot_loop a b 0 0"

definition normv :: "vec \<Rightarrow> real" where
  "normv a = sqrt (dot a a)"

definition cosineSim :: "vec \<Rightarrow> vec \<Rightarrow> real" where
  "cosineSim a b = (let n = normv a * normv b in if n = 0 then 0 else dot a b / n)"

text \<open>
  The same function on what the handlers hold, a JSON value. Null and undefined
  have no \<^verbatim>\<open>length\<close>: the read throws. An array of numbers, booleans, empty strings
  and nulls multiplies as numbers (true is 1, the falsy ones read 0). Any other shape
  would need string-to-number conversion or NaN, and is answered \<open>Unsupported\<close>.
\<close>

fun num_entry :: "jsval \<Rightarrow> real option option" where
  "num_entry (JNum r) = Some (Some r)"
| "num_entry JNull = Some None"
| "num_entry JUndefined = Some None"
| "num_entry (JBool b) = Some (if b then Some 1 else None)"
| "num_entry (JStr s) = (if s = [] then Some None else None)"
| "num_entry v = None"

fun vec_of :: "jsval \<Rightarrow> vec option" where
  "vec_of (JArr xs) = those (map num_entry xs)"
| "vec_of v = None"

definition cosineSim_js :: "jsval \<Rightarrow> jsval \<Rightarrow> error + real" where
  "cosineSim_js a b =
     (if nullish a \<or> nullish b then Inl TypeError
      else (case (vec_of a, vec_of b) of
              (Some u, Some v) \<Rightarrow> Inr (cosineSim u v)
            | _ \<Rightarrow> Inl Unsupported))"

section \<open>server.js: the process and its collaborators\<close>

record rag_vector =
  vid :: jsval
  vtext :: jsval
  embedding :: jsval

record ranked_doc = rag_vector +
  sim :: real

record message =
  role :: jsstring
  content :: jsstring

text \<open>
  The effects of a handler, in the order it performs them: the calls to the three
  external endpoints, what it does to the express response, and what it logs.
  A call carries the text or the messages it sends; model names and sampling
  parameters are fixed by the environment and left out.
\<close>

datatype logarg = LStr jsstring | LNum nat | LVal jsval | LErr

datatype event =
    CallModeration jsstring
  | CallEmbedding jsstring
  | CallCompletion "message list" bool
  | Status nat
  | Json jsval
  | SetHeader jsstring jsstring
  | FlushHeaders
  | Write jsstring
  | End
  | Log "logarg list"

text \<open>
  What the outside answers. A fetch rejects or resolves to a response; reading the
  body as text or as JSON may reject (\<open>None\<close>); a streamed body is the decoded
  text of each chunk the reader delivers, and then a clean end or a failing read
  (a stream that never ends is not represented).
\<close>

datatype ending = Closed | Dropped

record response =
  status :: nat
  body_text :: "jsstring option"
  body_json :: "jsval option"
  body_stream :: "(jsstring list \<times> ending) option"

datatype fetched = Rejected | Resolved response

definition ok :: "response \<Rightarrow> bool" where
  "ok r \<longleftrightarrow> 200 \<le> status r \<and> status r \<le> 299"

text \<open>
  \<open>write_throws k\<close>: the \<open>k\<close>-th call of \<^verbatim>\<open>res.write\<close> or \<^verbatim>\<open>res.end\<close> after the
  headers are flushed throws (counted from 0) and so delivers nothing.
\<close>

record world =
  moderation_reply :: fetched
  embedding_reply :: fetched
  completion_reply :: fetched
  write_throws :: "nat \<Rightarrow> bool"

text \<open>\<^verbatim>\<open>RAG_TOP_K = Number(...)\<close> is any JavaScript number.\<close>

datatype jsnumber = NaN | PosInf | NegInf | Finite real

record env =
  OPENAI_KEY :: "jsstring option"
  SYSTEM_PROMPT :: jsstring
  RAG_ENABLED :: bool
  RAG_TOP_K :: jsnumber
  RAG_VECTORS :: "rag_vector list"

definition no_key :: "env \<Rightarrow> bool" where
  "no_key e \<longleftrightarrow> OPENAI_KEY e = None \<or> OPENAI_KEY e = Some []"

text \<open>
  How a handler ends: it returns, or an exception leaves it that nothing catches.
  \<open>Threw Unsupported\<close> marks a request that leaves the modelled fragment.
\<close>

datatype outcome = Returned | Threw error

subsection \<open>Loading the corpus\<close>

text \<open>
  Lines 67-82. The file may be unreadable, may fail to parse, or parses to a value.
\<close>

datatype source = Unreadable | Malformed | Parsed jsval

definition load_record :: "jsval \<Rightarrow> error + rag_vector" where
  "load_record v =
     (if nullish v then Inl TypeError
      else Inr \<lparr>vid = own_prop v (ascii ''id''), vtext = own_prop v (ascii ''text''),
                embedding = own_prop v (ascii ''embedding'')\<rparr>)"

definition load_warning :: jsstring where
  "load_warning = ascii ''RAG enabled but vectors.json not found or invalid. Run embed_docs.js to build embeddings.''"

definition load_vectors :: "bool \<Rightarrow> source \<Rightarrow> event list \<times> rag_vector list" where
  "load_vectors enabled src =
     (if \<not> enabled then ([], [])
      else (case src of
              Unreadable \<Rightarrow> ([Log [LStr load_warning]], [])
            | Malformed \<Rightarrow> ([Log [LStr load_warning]], [])
            | Parsed (JArr vs) \<Rightarrow>
                (case sequence (map load_record vs) of
                   Inl e \<Rightarrow> ([Log [LStr load_warning]], [])
                 | Inr recs \<Rightarrow>
                     ([Log [LStr (ascii ''Loaded '' @ decimal (length recs) @ ascii '' RAG vectors from vectors.json'')]],
                      recs))
            | Parsed v \<Rightarrow> ([Log [LStr (ascii ''vectors.json is not an array; ignoring.'')]], [])))"

section \<open>server.js: the stages of a request\<close>

subsection \<open>Moderation\<close>

record verdict =
  flagged :: bool
  result :: "jsval option"

definition not_flagged :: verdict where
  "not_flagged = \<lparr>flagged = False, result = None\<rparr>"

text \<open>\<^verbatim>\<open>runModerationCheck\<close>, lines 126-148: the events and the verdict.\<close>

definition runModerationCheck :: "env \<Rightarrow> world \<Rightarrow> jsstring \<Rightarrow> event list \<times> verdict" where
  "runModerationCheck e w input =
     (if no_key e then ([], not_flagged)
      else (case moderation_reply w of
              Rejected \<Rightarrow>
                ([CallModeration input, Log [LStr (ascii ''Moderation failed:''), LErr]], not_flagged)
            | Resolved r \<Rightarrow>
                if \<not> ok r then
                  ([CallModeration input,
                    Log [LStr (ascii ''Moderation API error status:''), LNum (status r)]], not_flagged)
                else (case body_json r of
                        None \<Rightarrow>
                          ([CallModeration input, Log [LStr (ascii ''Moderation failed:''), LErr]],
                           not_flagged)
                      | Some j \<Rightarrow>
                          (let r0 = opt_index (opt_prop j (ascii ''results'')) 0
                           in ([CallModeration input],
                               \<lparr>flagged = truthy (opt_prop r0 (ascii ''flagged'')), result = Some r0\<rparr>)))))"

subsection \<open>Retrieval\<close>

text \<open>
  \<^verbatim>\<open>getEmbedding\<close>, lines 106-124: it throws when the fetch rejects, when the status
  is not a success, and when the body is not JSON.
\<close>

datatype thrown = FetchRejected | EmbeddingsError | BodyRejected

definition getEmbedding :: "world \<Rightarrow> jsstring \<Rightarrow> event list \<times> (thrown + jsval)" where
  "getEmbedding w t =
     (case embedding_reply w of
        Rejected \<Rightarrow> ([CallEmbedding t], Inl FetchRejected)
      | Resolved r \<Rightarrow>
          if \<not> ok r then ([CallEmbedding t], Inl EmbeddingsError)
          else (case body_json r of
                  None \<Rightarrow> ([CallEmbedding t], Inl BodyRejected)
                | Some j \<Rightarrow>
                    ([CallEmbedding t],
                     Inr (opt_prop (opt_index (opt_prop j (ascii ''data'')) 0) (ascii ''embedding'')))))"

text \<open>\<^verbatim>\<open>{ ...v, sim: cosineSim(qemb, v.embedding) }\<close>\<close>

definition with_sim :: "rag_vector \<Rightarrow> real \<Rightarrow> ranked_doc" where
  "with_sim v s = \<lparr>vid = vid v, vtext = vtext v, embedding = embedding v, sim = s\<rparr>"

definition score :: "jsval \<Rightarrow> rag_vector \<Rightarrow> error + ranked_doc" where
  "score qemb v =
     (case cosineSim_js qemb (embedding v) of Inl e \<Rightarrow> Inl e | Inr s \<Rightarrow> Inr (with_sim v s))"

text \<open>
  \<^verbatim>\<open>Array.prototype.sort\<close> with a comparison function is a stable sort (ECMAScript
  2019): here insertion, an element going before the first one it does not
  compare greater than.
\<close>

fun insort_cmp :: "('a \<Rightarrow> 'a \<Rightarrow> real) \<Rightarrow> 'a \<Rightarrow> 'a list \<Rightarrow> 'a list" where
  "insort_cmp c x [] = [x]"
| "insort_cmp c x (y # ys) = (if c x y \<le> 0 then x # y # ys else y # insort_cmp c x ys)"

definition js_sort :: "('a \<Rightarrow> 'a \<Rightarrow> real) \<Rightarrow> 'a list \<Rightarrow> 'a list" where
  "js_sort c xs = foldr (insort_cmp c) xs []"

text \<open>\<^verbatim>\<open>(a, b) => b.sim - a.sim\<close>\<close>

definition by_sim :: "ranked_doc \<Rightarrow> ranked_doc \<Rightarrow> real" where
  "by_sim a b = sim b - sim a"

text \<open>
  \<^verbatim>\<open>xs.slice(0, k)\<close>: \<open>k\<close> is truncated to an integer (NaN reads 0), a negative
  one counts from the end, and the result is clamped to the array.
\<close>

definition slice_end :: "jsnumber \<Rightarrow> nat \<Rightarrow> nat" where
  "slice_end k len =
     (case k of
        NaN \<Rightarrow> 0
      | NegInf \<Rightarrow> 0
      | PosInf \<Rightarrow> len
      | Finite r \<Rightarrow>
          (let t = (if r < 0 then \<lceil>r\<rceil> else \<lfloor>r\<rfloor>)
           in if t < 0 then nat (max (int len + t) 0) else min (nat t) len))"

definition slice0 :: "jsnumber \<Rightarrow> 'a list \<Rightarrow> 'a list" where
  "slice0 k xs = take (slice_end k (length xs)) xs"

definition rank :: "rag_vector list \<Rightarrow> jsval \<Rightarrow> error + ranked_doc list" where
  "rank vs qemb =
     (case sequence (map (score qemb) vs) of
        Inl e \<Rightarrow> Inl e
      | Inr sims \<Rightarrow> Inr (js_sort by_sim sims))"

definition rag_log :: event where
  "rag_log = Log [LStr (ascii ''RAG embedding error:''), LErr]"

text \<open>
  The retrieval block, lines 197-207 and 270-280. An exception inside it is logged
  and leaves \<^verbatim>\<open>topDocs\<close> empty; a corpus outside the numeric model is reported as such.
\<close>

definition retrieve :: "env \<Rightarrow> world \<Rightarrow> jsstring \<Rightarrow> event list \<times> (error + ranked_doc list)" where
  "retrieve e w userMessage =
     (if RAG_ENABLED e \<and> length (RAG_VECTORS e) > 0 then
        (case getEmbedding w userMessage of
           (evs, Inl t) \<Rightarrow> (evs @ [rag_log], Inr [])
         | (evs, Inr qemb) \<Rightarrow>
             (case rank (RAG_VECTORS e) qemb of
                Inl Unsupported \<Rightarrow> (evs, Inl Unsupported)
              | Inl TypeError \<Rightarrow> (evs @ [rag_log], Inr [])
              | Inr sorted_sims \<Rightarrow> (evs, Inr (slice0 (RAG_TOP_K e) sorted_sims))))
      else ([], Inr []))"

subsection \<open>Prompt assembly\<close>

text \<open>\<^verbatim>\<open>buildMessagesWithRAG\<close>, lines 150-161.\<close>

definition doc_entry :: "(real \<Rightarrow> jsstring) \<Rightarrow> nat \<times> ranked_doc \<Rightarrow> error + jsstring" where
  "doc_entry N p =
     (case js_String N (vtext (snd p)) of
        Inl e \<Rightarrow> Inl e
      | Inr t \<Rightarrow> Inr (ascii ''Documento '' @ decimal (fst p + 1) @ ascii '':'' @ [LF] @ t))"

definition rag_intro :: jsstring where
  "rag_intro = [LF, LF] @ ascii ''Documentos relevantes:'' @ [LF]"

definition rag_outro :: jsstring where
  "rag_outro = [LF, LF] @ ascii ''Usa esta informaci'' @ [0xF3]
     @ ascii ''n cuando sea pertinente y cita la fuente si es necesario.''"

definition ragSystem :: "(real \<Rightarrow> jsstring) \<Rightarrow> jsstring \<Rightarrow> ranked_doc list \<Rightarrow> error + jsstring" where
  "ragSystem N systemPrompt topDocs =
     (if topDocs \<noteq> [] then
        (case sequence (map (doc_entry N) (enumerate 0 topDocs)) of
           Inl e \<Rightarrow> Inl e
         | Inr ds \<Rightarrow> Inr (systemPrompt @ rag_intro @ join [LF, LF] ds @ rag_outro))
      else Inr systemPrompt)"

definition history_role :: "jsval \<Rightarrow> jsstring" where
  "history_role r = (if r = JStr (ascii ''assistant'') then ascii ''assistant'' else ascii ''user'')"

definition history_message :: "(real \<Rightarrow> jsstring) \<Rightarrow> jsval \<Rightarrow> error + message" where
  "history_message N h =
     (case get_prop h (ascii ''role'') of
        Inl e \<Rightarrow> Inl e
      | Inr r \<Rightarrow>
          (case js_String N (own_prop h (ascii ''content'')) of
             Inl e \<Rightarrow> Inl e
           | Inr c \<Rightarrow> Inr \<lparr>role = history_role r, content = c\<rparr>))"

definition buildMessagesWithRAG ::
    "(real \<Rightarrow> jsstring) \<Rightarrow> jsstring \<Rightarrow> jsval list \<Rightarrow> jsstring \<Rightarrow> ranked_doc list \<Rightarrow> error + message list" where
  "buildMessagesWithRAG N systemPrompt history userMessage topDocs =
     (case ragSystem N systemPrompt topDocs of
        Inl e \<Rightarrow> Inl e
      | Inr sys \<Rightarrow>
          (case sequence (map (history_message N) history) of
             Inl e \<Rightarrow> Inl e
           | Inr hs \<Rightarrow>
               Inr (\<lparr>role = ascii ''system'', content = sys\<rparr> # hs
                    @ [\<lparr>role = ascii ''user'', content = userMessage\<rparr>])))"

section \<open>server.js: the handlers\<close>

definition error_body :: "jsstring \<Rightarrow> jsval" where
  "error_body m = JObj [(ascii ''error'', JStr m)]"

definition msg_blocked :: jsstring where
  "msg_blocked = ascii ''El contenido del mensaje ha sido bloqueado por pol'' @ [0xED]
     @ ascii ''ticas de seguridad.''"

definition msg_no_key :: jsstring where
  "msg_no_key = ascii ''OpenAI API key not configured.''"

definition msg_upstream :: jsstring where
  "msg_upstream = ascii ''Error comunic'' @ [0xE1] @ ascii ''ndose con el servicio de IA.''"

definition msg_unexpected :: jsstring where
  "msg_unexpected = ascii ''Respuesta inesperada del servicio de IA.''"

definition msg_server :: jsstring where
  "msg_server = ascii ''Error del servidor al procesar la solicitud.''"

text \<open>\<^verbatim>\<open>xs.slice(-n)\<close>: the last \<open>n\<close> elements.\<close>

definition lastN :: "nat \<Rightarrow> 'a list \<Rightarrow> 'a list" where
  "lastN n xs = drop (length xs - n) xs"

definition clientHistory :: "nat \<Rightarrow> jsval \<Rightarrow> jsval list" where
  "clientHistory n body = (case own_prop body (ascii ''history'') of JArr hs \<Rightarrow> lastN n hs | _ \<Rightarrow> [])"

text \<open>\<^verbatim>\<open>(body.message || "").toString()\<close> with \<^verbatim>\<open>body = req.body || {}\<close>\<close>

definition request_body :: "jsval \<Rightarrow> jsval" where
  "request_body b = (if truthy b then b else JObj [])"

definition userMessage_of :: "(real \<Rightarrow> jsstring) \<Rightarrow> jsval \<Rightarrow> error + jsstring" where
  "userMessage_of N body =
     (let m = own_prop body (ascii ''message'')
      in js_String N (if truthy m then m else JStr []))"

text \<open>
  Both handlers of server.js run the same stages up to the credential check
  (lines 177-224 and 250-287): either the request ends there, with a response or with
  an exception nothing catches, or the messages for the completion call are ready.
\<close>

definition prepare ::
    "(real \<Rightarrow> jsstring) \<Rightarrow> env \<Rightarrow> world \<Rightarrow> jsval \<Rightarrow> event list \<times> (outcome + message list)" where
  "prepare N e w reqbody =
     (let body = request_body reqbody in
      case userMessage_of N body of
        Inl x \<Rightarrow> ([], Inl (Threw x))
      | Inr userMessage \<Rightarrow>
          (case validateMessageText (JStr userMessage) of
             Some v \<Rightarrow> ([Status 400, Json (error_body v)], Inl Returned)
           | None \<Rightarrow>
               (case runModerationCheck e w userMessage of
                  (mev, m) \<Rightarrow>
                    if flagged m then (mev @ [Status 400, Json (error_body msg_blocked)], Inl Returned)
                    else
                      (case retrieve e w userMessage of
                         (rvs, Inl x) \<Rightarrow> (mev @ rvs, Inl (Threw x))
                       | (rvs, Inr topDocs) \<Rightarrow>
                           (case buildMessagesWithRAG N (SYSTEM_PROMPT e) (clientHistory 20 body)
                                   userMessage topDocs of
                              Inl x \<Rightarrow> (mev @ rvs, Inl (Threw x))
                            | Inr messages \<Rightarrow>
                                if no_key e then
                                  (mev @ rvs @ [Status 500, Json (error_body msg_no_key)], Inl Returned)
                                else (mev @ rvs, Inr messages))))))"

definition text_or_empty :: "response \<Rightarrow> jsstring" where
  "text_or_empty r = (case body_text r of None \<Rightarrow> [] | Some t \<Rightarrow> t)"

text \<open>\<^verbatim>\<open>data?.choices?.[0]?.message?.content\<close>\<close>

definition reply_of :: "jsval \<Rightarrow> jsval" where
  "reply_of data =
     opt_prop (opt_prop (opt_index (opt_prop data (ascii ''choices'')) 0) (ascii ''message''))
       (ascii ''content'')"

subsection \<open>POST /api/chat\<close>

text \<open>
  Lines 226-245. \<^verbatim>\<open>reply.trim()\<close> on a truthy reply that is not a string is a call
  of undefined: the exception lands in the handler's catch.
\<close>

definition chat_catch :: "event list" where
  "chat_catch = [Log [LStr (ascii ''Error in /api/chat:''), LErr], Status 500, Json (error_body msg_server)]"

definition chat_upstream :: "world \<Rightarrow> message list \<Rightarrow> event list" where
  "chat_upstream w messages =
     CallCompletion messages False #
     (case completion_reply w of
        Rejected \<Rightarrow> chat_catch
      | Resolved r \<Rightarrow>
          if \<not> ok r then
            [Log [LStr (ascii ''OpenAI chat error:''), LNum (status r), LStr (text_or_empty r)],
             Status 502, Json (error_body msg_upstream)]
          else (case body_json r of
                  None \<Rightarrow> chat_catch
                | Some data \<Rightarrow>
                    (let reply = reply_of data in
                     if \<not> truthy reply then
                       [Log [LStr (ascii ''OpenAI unexpected response shape:''), LVal data],
                        Status 502, Json (error_body msg_unexpected)]
                     else (case reply of
                             JStr s \<Rightarrow> [Json (JObj [(ascii ''reply'', JStr (trim s))])]
                           | _ \<Rightarrow> chat_catch))))"

definition api_chat :: "(real \<Rightarrow> jsstring) \<Rightarrow> env \<Rightarrow> world \<Rightarrow> jsval \<Rightarrow> event list \<times> outcome" where
  "api_chat N e w reqbody =
     (case prepare N e w reqbody of
        (evs, Inl out) \<Rightarrow> (evs, out)
      | (evs, Inr messages) \<Rightarrow> (evs @ chat_upstream w messages, Returned))"

subsection \<open>POST /api/chat/stream\<close>

definition sse_headers :: "event list" where
  "sse_headers =
     [SetHeader (ascii ''Content-Type'') (ascii ''text/event-stream; charset=utf-8''),
      SetHeader (ascii ''Cache-Control'') (ascii ''no-cache, no-transform''),
      SetHeader (ascii ''Connection'') (ascii ''keep-alive''),
      FlushHeaders]"

text \<open>\<^verbatim>\<open>event: error\ndata: ${JSON.stringify({ error: m })}\n\n\<close>\<close>

definition error_event :: "jsstring \<Rightarrow> jsstring" where
  "error_event m =
     ascii ''event: error'' @ [LF] @ ascii ''data: {'' @ JSON_stringify (ascii ''error'') @ ascii '':''
       @ JSON_stringify m @ ascii ''}'' @ [LF, LF]"

definition done_event :: jsstring where
  "done_event = ascii ''event: done'' @ [LF] @ ascii ''data: [DONE]'' @ [LF, LF]"

definition msg_stream_upstream :: jsstring where
  "msg_stream_upstream = ascii ''Error en streaming desde OpenAI''"

definition msg_stream_server :: jsstring where
  "msg_stream_server = ascii ''Error en el servidor durante el streaming.''"

text \<open>
  The body of the \<^verbatim>\<open>for\<close> loop, lines 330-336: what one line makes the handler
  write. \<^verbatim>\<open>line.replace(/^data:\s*/, "")\<close> drops the prefix and the white space
  after it.
\<close>

definition line_frames :: "jsstring \<Rightarrow> jsstring list" where
  "line_frames line =
     (if trim line = [] then []
      else if startsWith line (ascii ''data:'') then
        [ascii ''data: '' @ dropWhile isWhiteSpace (drop 5 line) @ [LF, LF]]
      else [ascii ''data: '' @ JSON_stringify line @ [LF, LF]])"

text \<open>Lines 327-329: the lines of a chunk, the empty ones filtered out.\<close>

definition chunk_lines :: "jsstring \<Rightarrow> jsstring list" where
  "chunk_lines chunk = filter (\<lambda>l. l \<noteq> []) (splitLines chunk)"

definition chunk_frames :: "jsstring \<Rightarrow> jsstring list" where
  "chunk_frames chunk = concat (map line_frames (chunk_lines chunk))"

text \<open>
  Performing writes on the response: the first one that throws ends the run.
  The result is what was delivered, the number of calls made so far, and whether
  the run ended by an exception.
\<close>

fun attempt :: "(nat \<Rightarrow> bool) \<Rightarrow> nat \<Rightarrow> event list \<Rightarrow> event list \<times> nat \<times> bool" where
  "attempt t k [] = ([], k, False)"
| "attempt t k (x # xs) =
     (if t k then ([], k + 1, True)
      else (case attempt t (k + 1) xs of (d, k', thrown) \<Rightarrow> (x # d, k', thrown)))"

text \<open>
  The catch of lines 342-348: log, try to write the error event and to end the
  response; an exception there is swallowed.
\<close>

definition stream_catch :: "(nat \<Rightarrow> bool) \<Rightarrow> nat \<Rightarrow> event list" where
  "stream_catch t k =
     Log [LStr (ascii ''Streaming endpoint error:''), LErr]
     # fst (attempt t k [Write (error_event msg_stream_server), End])"

text \<open>A run of writes inside the try block: an exception lands in the catch.\<close>

definition or_catch :: "(nat \<Rightarrow> bool) \<Rightarrow> event list \<times> nat \<times> bool \<Rightarrow> event list" where
  "or_catch t run = (case run of (d, k, thrown) \<Rightarrow> if thrown then d @ stream_catch t k else d)"

text \<open>Lines 311-317: the upstream refused, or answered without a body.\<close>

definition stream_refused :: "(nat \<Rightarrow> bool) \<Rightarrow> response \<Rightarrow> event list" where
  "stream_refused t r =
     Log [LStr (ascii ''OpenAI streaming error:''), LNum (status r), LStr (text_or_empty r)]
     # or_catch t (attempt t 0 [Write (error_event msg_stream_upstream), End])"

text \<open>
  Lines 319-341: the frames of every chunk in the order read; then the done event
  and the end of the response, or the catch when a read fails.
\<close>

definition stream_relay :: "(nat \<Rightarrow> bool) \<Rightarrow> jsstring list \<Rightarrow> ending \<Rightarrow> event list" where
  "stream_relay t chunks ending =
     (case attempt t 0 (map Write (concat (map chunk_frames chunks))) of
        (d, k, thrown) \<Rightarrow>
          if thrown \<or> ending = Dropped then d @ stream_catch t k
          else d @ or_catch t (attempt t k [Write done_event, End]))"

text \<open>The try block, lines 295-341, after the fetch has been issued.\<close>

definition stream_upstream :: "world \<Rightarrow> event list" where
  "stream_upstream w =
     (let t = write_throws w in
      case completion_reply w of
        Rejected \<Rightarrow> stream_catch t 0
      | Resolved r \<Rightarrow>
          if \<not> ok r then stream_refused t r
          else (case body_stream r of
                  None \<Rightarrow> stream_refused t r
                | Some (chunks, ending) \<Rightarrow> stream_relay t chunks ending))"

definition api_chat_stream ::
    "(real \<Rightarrow> jsstring) \<Rightarrow> env \<Rightarrow> world \<Rightarrow> jsval \<Rightarrow> event list \<times> outcome" where
  "api_chat_stream N e w reqbody =
     (case prepare N e w reqbody of
        (evs, Inl out) \<Rightarrow> (evs, out)
      | (evs, Inr messages) \<Rightarrow>
          (evs @ sse_headers @ [CallCompletion messages True] @ stream_upstream w, Returned))"

section \<open>pages/api/chat.js\<close>

definition msg_method :: jsstring where
  "msg_method = ascii ''M'' @ [0xE9] @ ascii ''todo no permitido''"

definition msg_no_key_next :: jsstring where
  "msg_no_key_next = ascii ''OpenAI API key no configurada.''"

definition next_catch :: "event list" where
  "next_catch = [Log [LStr (ascii ''API handler error:''), LErr], Status 500, Json (error_body msg_server)]"

text \<open>Lines 44-71.\<close>

definition next_upstream :: "world \<Rightarrow> message list \<Rightarrow> event list" where
  "next_upstream w messages =
     CallCompletion messages False #
     (case completion_reply w of
        Rejected \<Rightarrow> next_catch
      | Resolved r \<Rightarrow>
          if \<not> ok r then
            [Log [LStr (ascii ''OpenAI API error:''), LNum (status r), LStr (text_or_empty r)],
             Status 502, Json (error_body msg_upstream)]
          else (case body_json r of
                  None \<Rightarrow> next_catch
                | Some data \<Rightarrow>
                    (let reply = reply_of data in
                     if \<not> truthy reply then
                       [Log [LStr (ascii ''OpenAI returned unexpected response:''), LVal data],
                        Status 502, Json (error_body msg_unexpected)]
                     else (case reply of
                             JStr s \<Rightarrow> [Status 200, Json (JObj [(ascii ''reply'', JStr (trim s))])]
                           | _ \<Rightarrow> next_catch))))"

text \<open>
  The handler, lines 7-42: the method, the credential, the message, the messages.
  Its prompt has no retrieved documents.
\<close>

definition handler ::
    "(real \<Rightarrow> jsstring) \<Rightarrow> env \<Rightarrow> world \<Rightarrow> jsstring \<Rightarrow> jsval \<Rightarrow> event list \<times> outcome" where
  "handler N e w method reqbody =
     (if method \<noteq> ascii ''POST'' then
        ([SetHeader (ascii ''Allow'') (ascii ''POST''), Status 405, Json (error_body msg_method)], Returned)
      else if no_key e then ([Status 500, Json (error_body msg_no_key_next)], Returned)
      else
        (let body = request_body reqbody in
         case userMessage_of N body of
           Inl x \<Rightarrow> ([], Threw x)
         | Inr userMessage \<Rightarrow>
             if userMessage = [] \<or> length (trim userMessage) = 0 then
               ([Status 400, Json (error_body msg_empty)], Returned)
             else if length userMessage > 8000 then
               ([Status 400, Json (error_body msg_too_long)], Returned)
             else
               (case buildMessagesWithRAG N (SYSTEM_PROMPT e) (clientHistory 10 body) userMessage [] of
                  Inl x \<Rightarrow> ([], Threw x)
                | Inr messages \<Rightarrow> (next_upstream w messages, Returned))))"

section \<open>Notions used in the statements\<close>




text \<open>
  An upstream line: text without a line feed that does not end in a carriage
  return. A chunk of whole lines is each of them followed by a line feed.
\<close>

definition upstream_line :: "jsstring \<Rightarrow> bool" where
  "upstream_line l \<longleftrightarrow> LF \<notin> set l \<and> (l = [] \<or> last l \<noteq> CR)"

definition chunk_of :: "jsstring list \<Rightarrow> jsstring" where
  "chunk_of ls = concat (map (\<lambda>l. l @ [LF]) ls)"

text \<open>
  The data frame of a line: the payload after the \<^verbatim>\<open>data:\<close> prefix, or the line as
  a JSON string.
\<close>

definition data_frame :: "jsstring \<Rightarrow> jsstring" where
  "data_frame l =
     (if startsWith l (ascii ''data:'') then ascii ''data: '' @ dropWhile isWhiteSpace (drop 5 l) @ [LF, LF]
      else ascii ''data: '' @ JSON_stringify l @ [LF, LF])"

definition blank :: "jsstring \<Rightarrow> bool" where
  "blank l \<longleftrightarrow> trim l = []"



section \<open>Example inputs\<close>

text \<open>
  Concrete collaborators and requests, used where a property is exercised. The
  number printer of the examples writes the digits of a natural number.
\<close>

definition example_N :: "real \<Rightarrow> jsstring" where
  "example_N r = decimal (nat \<lfloor>r\<rfloor>)"

definition never_throws :: "nat \<Rightarrow> bool" where
  "never_throws k = False"

definition example_env :: env where
  "example_env =
     \<lparr>OPENAI_KEY = Some (ascii ''sk-test''), SYSTEM_PROMPT = ascii ''Eres Atenea.'',
      RAG_ENABLED = False, RAG_TOP_K = Finite 3, RAG_VECTORS = []\<rparr>"

definition json_response :: "nat \<Rightarrow> jsval \<Rightarrow> response" where
  "json_response s j = \<lparr>status = s, body_text = None, body_json = Some j, body_stream = None\<rparr>"

definition stream_response :: "jsstring list \<Rightarrow> ending \<Rightarrow> response" where
  "stream_response cs x =
     \<lparr>status = 200, body_text = None, body_json = None, body_stream = Some (cs, x)\<rparr>"

definition moderation_says :: "bool \<Rightarrow> fetched" where
  "moderation_says b =
     Resolved (json_response 200
       (JObj [(ascii ''results'', JArr [JObj [(ascii ''flagged'', JBool b)]])]))"

definition completion_says :: "jsstring \<Rightarrow> fetched" where
  "completion_says s =
     Resolved (json_response 200
       (JObj [(ascii ''choices'',
               JArr [JObj [(ascii ''message'', JObj [(ascii ''content'', JStr s)])]])]))"

definition example_world :: "fetched \<Rightarrow> fetched \<Rightarrow> world" where
  "example_world m c =
     \<lparr>moderation_reply = m, embedding_reply = Rejected, completion_reply = c,
      write_throws = never_throws\<rparr>"

definition chat_request :: "jsval \<Rightarrow> jsval" where
  "chat_request m = JObj [(ascii ''message'', m)]"

definition completion_fails :: "nat \<Rightarrow> jsstring \<Rightarrow> fetched" where
  "completion_fails s t =
     Resolved \<lparr>status = s, body_text = Some t, body_json = None, body_stream = None\<rparr>"

definition example_messages :: "jsstring \<Rightarrow> message list" where
  "example_messages m =
     [\<lparr>role = ascii ''system'', content = ascii ''Eres Atenea.''\<rparr>,
      \<lparr>role = ascii ''user'', content = m\<rparr>]"



definition embedding_says :: "jsval \<Rightarrow> fetched" where
  "embedding_says v =
     Resolved (json_response 200
       (JObj [(ascii ''data'', JArr [JObj [(ascii ''embedding'', v)]])]))"


definition example_rag_world :: world where
  "example_rag_world =
     \<lparr>moderation_reply = moderation_says False,
      embedding_reply = embedding_says (JArr [JNum 0, JNum 3]),
      completion_reply = completion_says (ascii ''ok''), write_throws = never_throws\<rparr>"



section \<open>Verified properties\<close>

subsection \<open>The similarity functions\<close>

text \<open>
  Numbers are exact reals here. What is proved below is about which entries are
  read and multiplied and about the guard on the denominator; claim C3, the
  behaviour of the same code on IEEE doubles up to a rounding tolerance, has no
  statement in this development.
\<close>














subsection \<open>Shared facts\<close>

lemmas example_defs = example_N_def never_throws_def example_env_def json_response_def
  stream_response_def moderation_says_def completion_says_def example_world_def chat_request_def
  completion_fails_def example_messages_def

lemmas handler_defs = api_chat_def prepare_def request_body_def userMessage_of_def
  runModerationCheck_def retrieve_def buildMessagesWithRAG_def ragSystem_def clientHistory_def
  chat_upstream_def no_key_def ok_def reply_of_def opt_prop_def error_body_def lastN_def
  not_flagged_def

lemma sequence_all_ok:
  "(\<And>x. x \<in> set xs \<Longrightarrow> f x = Inr (g x)) \<Longrightarrow> sequence (map f xs) = Inr (map g xs)"
  by (induction xs) auto

lemma sequence_some_error:
  "x \<in> set xs \<Longrightarrow> f x = Inl e \<Longrightarrow> \<exists>e'. sequence (map f xs) = Inl e'"
  by (induction xs) (auto split: sum.splits)

lemma attempt_subset: "attempt t k xs = (d, k', th) \<Longrightarrow> set d \<subseteq> set xs"
proof (induction xs arbitrary: k d)
  case Nil
  then show ?case by simp
next
  case (Cons x xs)
  show ?case
  proof (cases "t k")
    case True
    with Cons.prems show ?thesis by simp
  next
    case False
    obtain d0 k0 th0 where a: "attempt t (k + 1) xs = (d0, k0, th0)"
      by (cases "attempt t (k + 1) xs") auto
    with False Cons.prems have "d = x # d0" "k0 = k'" "th0 = th" by simp_all
    with Cons.IH [of "k + 1" d0] a show ?thesis by auto
  qed
qed

lemma moderation_events:
  "fst (runModerationCheck e w t) = [] \<or> (\<exists>l. fst (runModerationCheck e w t) = CallModeration t # l
      \<and> (l = [] \<or> (\<exists>a. l = [Log a])))"
  by (auto simp: runModerationCheck_def Let_def split: fetched.splits option.splits)


lemma moderation_no_embedding:
  "runModerationCheck e w m = (evs, v) \<Longrightarrow> CallEmbedding t \<notin> set evs"
  using moderation_events [of e w m] by auto

lemma retrieve_empty_store:
  "\<not> RAG_ENABLED e \<or> RAG_VECTORS e = [] \<Longrightarrow> retrieve e w m = ([], Inr [])"
  by (auto simp: retrieve_def)

lemma stream_catch_events:
  "x \<in> set (stream_catch th k) \<Longrightarrow> (\<exists>a. x = Log a) \<or> (\<exists>s. x = Write s) \<or> x = End"
proof -
  obtain d k' y where a: "attempt th k [Write (error_event msg_stream_server), End] = (d, k', y)"
    by (cases "attempt th k [Write (error_event msg_stream_server), End]") auto
  assume "x \<in> set (stream_catch th k)"
  with attempt_subset [OF a] show ?thesis
    unfolding stream_catch_def a by auto
qed

lemma or_catch_events:
  assumes "x \<in> set (or_catch t (attempt t k xs))"
  shows "x \<in> set xs \<or> (\<exists>a. x = Log a) \<or> (\<exists>s. x = Write s) \<or> x = End"
proof -
  obtain d k' y where a: "attempt t k xs = (d, k', y)"
    by (cases "attempt t k xs") auto
  from assms attempt_subset [OF a] stream_catch_events [of x t k'] show ?thesis
    unfolding or_catch_def a by (auto split: if_splits)
qed

lemma stream_refused_events:
  assumes "x \<in> set (stream_refused t r)"
  shows "(\<exists>a. x = Log a) \<or> (\<exists>s. x = Write s) \<or> x = End"
  using assms or_catch_events [of x t 0 "[Write (error_event msg_stream_upstream), End]"]
  unfolding stream_refused_def by auto

lemma stream_relay_events:
  assumes "x \<in> set (stream_relay t chunks ending)"
  shows "(\<exists>a. x = Log a) \<or> (\<exists>s. x = Write s) \<or> x = End"
proof -
  obtain d k y where a: "attempt t 0 (map Write (concat (map chunk_frames chunks))) = (d, k, y)"
    by (cases "attempt t 0 (map Write (concat (map chunk_frames chunks)))") auto
  from assms attempt_subset [OF a] stream_catch_events [of x t k]
    or_catch_events [of x t k "[Write done_event, End]"]
  show ?thesis
    unfolding stream_relay_def a by (auto split: if_splits)
qed

lemma stream_upstream_events:
  assumes "x \<in> set (stream_upstream w)"
  shows "(\<exists>a. x = Log a) \<or> (\<exists>s. x = Write s) \<or> x = End"
  using assms stream_catch_events [of x "write_throws w" 0] stream_refused_events [of x "write_throws w"]
    stream_relay_events [of x "write_throws w"]
  unfolding stream_upstream_def Let_def
  by (auto split: fetched.splits option.splits if_splits prod.splits)

lemma chat_upstream_no_embedding: "CallEmbedding t \<notin> set (chat_upstream w ms)"
  by (auto simp: chat_upstream_def chat_catch_def Let_def split: fetched.splits option.splits jsval.splits)

lemma prepare_no_embedding:
  assumes "RAG_VECTORS e = []"
  shows "CallEmbedding t \<notin> set (fst (prepare N e w body))"
proof -
  have r: "retrieve e w m = ([], Inr [])" for m
    using assms by (simp add: retrieve_empty_store)
  show ?thesis
    using moderation_no_embedding [of e w _ _ _ t]
    by (auto simp: prepare_def r Let_def split: sum.splits option.splits prod.splits)
qed

lemma api_chat_no_embedding:
  assumes "RAG_VECTORS e = []"
  shows "CallEmbedding t \<notin> set (fst (api_chat N e w body))"
  using prepare_no_embedding [OF assms, of t N w body] chat_upstream_no_embedding [of t w]
  by (auto simp: api_chat_def split: prod.splits sum.splits)

lemma api_chat_stream_no_embedding:
  assumes "RAG_VECTORS e = []"
  shows "CallEmbedding t \<notin> set (fst (api_chat_stream N e w body))"
  using prepare_no_embedding [OF assms, of t N w body] stream_upstream_events [of "CallEmbedding t" w]
  by (auto simp: api_chat_stream_def sse_headers_def split: prod.splits sum.splits)

subsection \<open>Validation\<close>





subsection \<open>Moderation\<close>












subsection \<open>Loading the corpus\<close>

lemma load_record_ok: "\<not> nullish v \<Longrightarrow> load_record v =
   Inr \<lparr>vid = own_prop v (ascii ''id''), vtext = own_prop v (ascii ''text''),
        embedding = own_prop v (ascii ''embedding'')\<rparr>"
  by (simp add: load_record_def)

lemma load_vectors_not_array:
  "\<forall>vs. v \<noteq> JArr vs \<Longrightarrow> snd (load_vectors enabled (Parsed v)) = []"
  by (cases v) (auto simp: load_vectors_def)

lemma load_vectors_null_entry:
  assumes "v \<in> set vs" and "nullish v"
  shows "snd (load_vectors enabled (Parsed (JArr vs))) = []"
proof -
  from assms have "load_record v = Inl TypeError" by (simp add: load_record_def)
  with assms(1) obtain e' where "sequence (map load_record vs) = Inl e'"
    using sequence_some_error [of v vs load_record TypeError] by blast
  then show ?thesis by (simp add: load_vectors_def)
qed

lemma load_vectors_records:
  assumes "\<forall>v\<in>set vs. \<not> nullish v"
  shows "snd (load_vectors True (Parsed (JArr vs))) =
     map (\<lambda>v. \<lparr>vid = own_prop v (ascii ''id''), vtext = own_prop v (ascii ''text''),
                embedding = own_prop v (ascii ''embedding'')\<rparr>) vs"
proof -
  have "sequence (map load_record vs) =
     Inr (map (\<lambda>v. \<lparr>vid = own_prop v (ascii ''id''), vtext = own_prop v (ascii ''text''),
                embedding = own_prop v (ascii ''embedding'')\<rparr>) vs)"
    using assms by (intro sequence_all_ok) (simp add: load_record_ok)
  then show ?thesis by (simp add: load_vectors_def)
qed

text \<open>
  Claim C9, as amended. The store stays empty when the file cannot be read, is not
  JSON, is not an array, or holds a null record. Otherwise every element of the
  array becomes a record with whatever id, text and embedding it has, a missing
  field being undefined: no field is checked. The load always yields a store, and
  with an empty store no request makes an embedding call.
\<close>

theorem load_without_validation:
  "((src = Unreadable \<or> src = Malformed \<or> (\<exists>v. src = Parsed v \<and> (\<forall>vs. v \<noteq> JArr vs))
      \<or> (\<exists>vs v. src = Parsed (JArr vs) \<and> v \<in> set vs \<and> nullish v))
     \<longrightarrow> snd (load_vectors enabled src) = [])
   \<and> ((\<forall>v\<in>set vs. \<not> nullish v)
     \<longrightarrow> snd (load_vectors True (Parsed (JArr vs))) =
           map (\<lambda>v. \<lparr>vid = own_prop v (ascii ''id''), vtext = own_prop v (ascii ''text''),
                      embedding = own_prop v (ascii ''embedding'')\<rparr>) vs)
   \<and> (RAG_VECTORS e = []
     \<longrightarrow> retrieve e w m = ([], Inr [])
         \<and> (\<forall>t. CallEmbedding t \<notin> set (fst (api_chat N e w body)))
         \<and> (\<forall>t. CallEmbedding t \<notin> set (fst (api_chat_stream N e w body))))"
proof (intro conjI impI)
  assume "src = Unreadable \<or> src = Malformed \<or> (\<exists>v. src = Parsed v \<and> (\<forall>vs. v \<noteq> JArr vs))
      \<or> (\<exists>vs v. src = Parsed (JArr vs) \<and> v \<in> set vs \<and> nullish v)"
  then consider "src = Unreadable \<or> src = Malformed"
    | v where "src = Parsed v" "\<forall>vs. v \<noteq> JArr vs"
    | vs v where "src = Parsed (JArr vs)" "v \<in> set vs" "nullish v"
    by blast
  then show "snd (load_vectors enabled src) = []"
  proof cases
    case 1
    then show ?thesis by (auto simp: load_vectors_def)
  next
    case 2
    then show ?thesis by (simp add: load_vectors_not_array)
  next
    case 3
    then show ?thesis by (simp add: load_vectors_null_entry)
  qed
next
  assume "\<forall>v\<in>set vs. \<not> nullish v"
  then show "snd (load_vectors True (Parsed (JArr vs))) =
           map (\<lambda>v. \<lparr>vid = own_prop v (ascii ''id''), vtext = own_prop v (ascii ''text''),
                      embedding = own_prop v (ascii ''embedding'')\<rparr>) vs"
    by (rule load_vectors_records)
next
  assume a: "RAG_VECTORS e = []"
  then show "retrieve e w m = ([], Inr [])" by (simp add: retrieve_empty_store)
  from a show "\<forall>t. CallEmbedding t \<notin> set (fst (api_chat N e w body))"
    by (simp add: api_chat_no_embedding)
  from a show "\<forall>t. CallEmbedding t \<notin> set (fst (api_chat_stream N e w body))"
    by (simp add: api_chat_stream_no_embedding)
qed

text \<open>
  An unparsable file and an array with a null record leave the store empty; a
  record with only a text is kept; the example environment, whose store is empty,
  retrieves nothing.
\<close>

theorem load_without_validation_witness:
  "snd (load_vectors True Malformed) = []
   \<and> snd (load_vectors True (Parsed (JArr [JObj [(ascii ''id'', JStr (ascii ''doc1''))], JNull]))) = []
   \<and> snd (load_vectors True (Parsed (JArr [JObj [(ascii ''text'', JStr (ascii ''hola''))]])))
       = [\<lparr>vid = JUndefined, vtext = JStr (ascii ''hola''), embedding = JUndefined\<rparr>]
   \<and> retrieve example_env (example_world (moderation_says False) Rejected) (ascii ''hola'') = ([], Inr [])"
proof -
  have 1: "snd (load_vectors True Malformed) = []"
    using load_without_validation [where src = Malformed] by simp
  have 2: "snd (load_vectors True (Parsed (JArr [JObj [(ascii ''id'', JStr (ascii ''doc1''))], JNull]))) = []"
  proof -
    have "\<exists>vs v. Parsed (JArr [JObj [(ascii ''id'', JStr (ascii ''doc1''))], JNull]) = Parsed (JArr vs)
        \<and> v \<in> set vs \<and> nullish v"
      by (intro exI [of _ "[JObj [(ascii ''id'', JStr (ascii ''doc1''))], JNull]"] exI [of _ JNull]) simp
    then show ?thesis
      using load_without_validation [where src = "Parsed (JArr [JObj [(ascii ''id'', JStr (ascii ''doc1''))], JNull])" and enabled = True]
      by blast
  qed
  have 3: "snd (load_vectors True (Parsed (JArr [JObj [(ascii ''text'', JStr (ascii ''hola''))]])))
       = [\<lparr>vid = JUndefined, vtext = JStr (ascii ''hola''), embedding = JUndefined\<rparr>]"
    using load_without_validation [where vs = "[JObj [(ascii ''text'', JStr (ascii ''hola''))]]"]
    by (simp add: ascii_def)
  have 4: "retrieve example_env (example_world (moderation_says False) Rejected) (ascii ''hola'') = ([], Inr [])"
    using load_without_validation [where e = example_env]
    by (simp add: example_env_def)
  from 1 2 3 4 show ?thesis by blast
qed

text \<open>
  Claim C9 as stated rejects the whole load for a record that misses a field. A
  record with an id and nothing else is loaded, its text and embedding undefined,
  and the store is not empty: retrieval stays enabled, a request still calls the
  embedding endpoint, and the ranking then fails on the undefined embedding.
\<close>

theorem record_without_text_is_loaded:
  "load_vectors True (Parsed (JArr [JObj [(ascii ''id'', JStr (ascii ''doc1''))]]))
   = ([Log [LStr (ascii ''Loaded 1 RAG vectors from vectors.json'')]],
      [\<lparr>vid = JStr (ascii ''doc1''), vtext = JUndefined, embedding = JUndefined\<rparr>])
   \<and> retrieve
        \<lparr>OPENAI_KEY = Some (ascii ''sk-test''), SYSTEM_PROMPT = ascii ''Eres Atenea.'',
         RAG_ENABLED = True, RAG_TOP_K = Finite 3,
         RAG_VECTORS = [\<lparr>vid = JStr (ascii ''doc1''), vtext = JUndefined, embedding = JUndefined\<rparr>]\<rparr>
        example_rag_world (ascii ''hola'')
     = ([CallEmbedding (ascii ''hola''), rag_log], Inr [])"
  by (simp add: load_vectors_def load_record_def decimal.simps digit_def
      retrieve_def getEmbedding_def rank_def score_def cosineSim_js_def
      example_rag_world_def embedding_says_def json_response_def ok_def opt_prop_def ascii_def)

subsection \<open>The buffered completion call\<close>





text \<open>
  A content that is truthy and not a string has no \<^verbatim>\<open>trim\<close>: the call throws and
  \<^verbatim>\<open>/api/chat\<close> answers from its catch, with status 500.
\<close>

lemma non_string_content_lands_in_catch:
  "chat_upstream
     (example_world (moderation_says False)
        (Resolved (json_response 200
           (JObj [(ascii ''choices'',
                   JArr [JObj [(ascii ''message'', JObj [(ascii ''content'', JNum 42)])]])]))))
     messages
   = [CallCompletion messages False, Log [LStr (ascii ''Error in /api/chat:''), LErr],
      Status 500, Json (error_body msg_server)]"
  by (simp add: chat_upstream_def chat_catch_def example_world_def json_response_def ok_def
      reply_of_def opt_prop_def ascii_def)

subsection \<open>Ranking\<close>













subsection \<open>Prompt assembly\<close>














text \<open>
  A null history entry has no role to read: for such a history the function
  throws, and the theorem above does not speak of it.
\<close>

lemma null_history_entry_throws:
  "buildMessagesWithRAG N systemPrompt [JNull] userMessage [] = Inl TypeError"
  by (simp add: buildMessagesWithRAG_def ragSystem_def history_message_def get_prop_def)

subsection \<open>The streaming relay\<close>

lemma LF_neq_CR: "LF \<noteq> CR" by (simp add: LF_def CR_def)

lemma splitLines_line:
  assumes "upstream_line l"
  shows "splitLines (l @ LF # rest) = l # splitLines rest"
  using assms
proof (induction l)
  case Nil
  then show ?case using LF_neq_CR by (cases rest) auto
next
  case (Cons c l)
  from Cons.prems have c: "c \<noteq> LF" and l: "upstream_line l"
    by (auto simp: upstream_line_def split: if_splits)
  obtain d cs where dcs: "l @ LF # rest = d # cs" by (cases "l @ LF # rest") auto
  have nb: "\<not> (c = CR \<and> d = LF)"
  proof (cases l)
    case Nil
    with Cons.prems show ?thesis by (simp add: upstream_line_def)
  next
    case (Cons a as)
    with dcs Cons.prems show ?thesis by (auto simp: upstream_line_def)
  qed
  have "splitLines (c # d # cs) = (case splitLines (d # cs) of [] \<Rightarrow> [[c]] | x # xs \<Rightarrow> (c # x) # xs)"
    using nb c by (subst splitLines.simps(3)) auto
  also have "splitLines (d # cs) = l # splitLines rest"
    using Cons.IH [OF l] dcs by simp
  finally show ?case using dcs by simp
qed

lemma splitLines_chunk:
  assumes "\<forall>l\<in>set ls. upstream_line l"
  shows "splitLines (chunk_of ls) = ls @ [[]]"
  using assms
proof (induction ls)
  case Nil
  then show ?case by (simp add: chunk_of_def)
next
  case (Cons l ls)
  then have "splitLines (l @ LF # chunk_of ls) = l # splitLines (chunk_of ls)"
    by (simp add: splitLines_line)
  with Cons show ?case by (simp add: chunk_of_def)
qed

lemma line_frames_frame: "line_frames l = (if blank l then [] else [data_frame l])"
  by (simp add: line_frames_def data_frame_def blank_def)

lemma blank_empty: "blank []"
  by (simp add: blank_def trim_def)

lemma concat_frames: "concat (map line_frames ls) = map data_frame (filter (\<lambda>l. \<not> blank l) ls)"
  by (induction ls) (simp_all add: line_frames_frame)

lemma chunk_frames_lines:
  assumes "\<forall>l\<in>set ls. upstream_line l"
  shows "chunk_frames (chunk_of ls) = map data_frame (filter (\<lambda>l. \<not> blank l) ls)"
proof -
  have "chunk_lines (chunk_of ls) = filter (\<lambda>l. l \<noteq> []) ls"
    using assms by (simp add: chunk_lines_def splitLines_chunk)
  moreover have "filter (\<lambda>l. \<not> blank l) (filter (\<lambda>l. l \<noteq> []) ls) = filter (\<lambda>l. \<not> blank l) ls"
    using blank_empty by (induction ls) auto
  ultimately show ?thesis by (simp add: chunk_frames_def concat_frames)
qed

lemma chunks_frames_lines:
  assumes "\<forall>ls\<in>set lss. \<forall>l\<in>set ls. upstream_line l"
  shows "concat (map chunk_frames (map chunk_of lss))
     = map data_frame (filter (\<lambda>l. \<not> blank l) (concat lss))"
  using assms by (induction lss) (simp_all add: chunk_frames_lines)

lemma attempt_no_throw:
  assumes "\<forall>k. \<not> t k"
  shows "attempt t k xs = (xs, k + length xs, False)"
  using assms by (induction xs arbitrary: k) auto

lemma stream_relay_closed:
  assumes "\<forall>k. \<not> t k"
  shows "stream_relay t chunks Closed
     = map Write (concat (map chunk_frames chunks)) @ [Write done_event, End]"
  by (simp add: stream_relay_def or_catch_def attempt_no_throw [OF assms] del: attempt.simps)




lemma api_chat_stream_after_prepare:
  "prepare N e w body = (evs, Inr messages)
   \<Longrightarrow> api_chat_stream N e w body
       = (evs @ sse_headers @ [CallCompletion messages True] @ stream_upstream w, Returned)"
  by (simp add: api_chat_stream_def)

lemma example_prepare:
  "prepare example_N example_env (example_world (moderation_says False) c)
      (chat_request (JStr (ascii ''hola'')))
   = ([CallModeration (ascii ''hola'')], Inr (example_messages (ascii ''hola'')))"
  by (simp add: handler_defs example_defs ascii_def trim_def isWhiteSpace_def)

text \<open>
  Claim C1, as amended. When the stages before the completion call have passed,
  the upstream answers with a success status, delivers chunks made of whole lines
  and then closes cleanly, and no write fails, \<^verbatim>\<open>/api/chat/stream\<close> writes one data
  frame for every upstream line that is not blank (empty or white space only), in
  the order of the lines, a line with the \<^verbatim>\<open>data:\<close> prefix by its payload and any other
  as a JSON string; then it writes the done event once and ends the response.
\<close>

theorem stream_relays_lines_in_order:
  assumes "prepare N e w body = (evs, Inr messages)"
    and "completion_reply w = Resolved r" and "ok r"
    and "body_stream r = Some (map chunk_of lss, Closed)"
    and "\<forall>ls\<in>set lss. \<forall>l\<in>set ls. upstream_line l"
    and "\<forall>k. \<not> write_throws w k"
  shows "api_chat_stream N e w body
     = (evs @ sse_headers @ [CallCompletion messages True]
        @ map (\<lambda>l. Write (data_frame l)) (filter (\<lambda>l. \<not> blank l) (concat lss))
        @ [Write done_event, End], Returned)"
proof -
  have "stream_upstream w = stream_relay (write_throws w) (map chunk_of lss) Closed"
    using assms(2,3,4) by (simp add: stream_upstream_def)
  also have "\<dots> = map Write (concat (map chunk_frames (map chunk_of lss))) @ [Write done_event, End]"
    using assms(6) by (rule stream_relay_closed)
  also have "concat (map chunk_frames (map chunk_of lss))
      = map data_frame (filter (\<lambda>l. \<not> blank l) (concat lss))"
    using assms(5) by (rule chunks_frames_lines)
  finally have "stream_upstream w
      = map (\<lambda>l. Write (data_frame l)) (filter (\<lambda>l. \<not> blank l) (concat lss)) @ [Write done_event, End]"
    by (simp add: comp_def)
  with api_chat_stream_after_prepare [OF assms(1)] show ?thesis by simp
qed

text \<open>Three data lines in two chunks: three data frames, then the done event, then the end.\<close>

theorem stream_relays_lines_in_order_witness:
  "api_chat_stream example_N example_env
      (example_world (moderation_says False)
         (Resolved (stream_response
            [ascii ''data: uno'' @ [LF, LF],
             ascii ''data: dos'' @ [LF, LF] @ ascii ''data: tres'' @ [LF, LF]] Closed)))
      (chat_request (JStr (ascii ''hola'')))
   = ([CallModeration (ascii ''hola'')] @ sse_headers
      @ [CallCompletion (example_messages (ascii ''hola'')) True,
         Write (ascii ''data: uno'' @ [LF, LF]),
         Write (ascii ''data: dos'' @ [LF, LF]),
         Write (ascii ''data: tres'' @ [LF, LF]),
         Write done_event, End], Returned)"
proof -
  let ?lss = "[[ascii ''data: uno'', []], [ascii ''data: dos'', [], ascii ''data: tres'', []]]"
  let ?r = "stream_response
            [ascii ''data: uno'' @ [LF, LF],
             ascii ''data: dos'' @ [LF, LF] @ ascii ''data: tres'' @ [LF, LF]] Closed"
  let ?w = "example_world (moderation_says False) (Resolved ?r)"
  have b: "body_stream ?r = Some (map chunk_of ?lss, Closed)"
    by (simp add: stream_response_def chunk_of_def)
  have l: "\<forall>ls\<in>set ?lss. \<forall>l\<in>set ls. upstream_line l"
    by (simp add: upstream_line_def ascii_def LF_def CR_def)
  have t: "\<forall>k. \<not> write_throws ?w k"
    by (simp add: example_world_def never_throws_def)
  have c: "completion_reply ?w = Resolved ?r" by (simp add: example_world_def)
  have k: "ok ?r" by (simp add: ok_def stream_response_def)
  have f: "map (\<lambda>l. Write (data_frame l)) (filter (\<lambda>l. \<not> blank l) (concat ?lss))
      = [Write (ascii ''data: uno'' @ [LF, LF]), Write (ascii ''data: dos'' @ [LF, LF]),
         Write (ascii ''data: tres'' @ [LF, LF])]"
    by (simp add: blank_def trim_def data_frame_def startsWith_def isWhiteSpace_def ascii_def)
  show ?thesis
    using stream_relays_lines_in_order [OF example_prepare c k b l t] f by simp
qed

text \<open>
  Claim C1 as stated gives every non-empty line a frame. A line of two spaces is
  not empty, and the handler writes nothing for it: the done event is the only
  frame.
\<close>

theorem blank_line_is_not_forwarded:
  "ascii ''  '' \<noteq> []
   \<and> api_chat_stream example_N example_env
      (example_world (moderation_says False)
         (Resolved (stream_response [ascii ''  '' @ [LF]] Closed)))
      (chat_request (JStr (ascii ''hola'')))
   = ([CallModeration (ascii ''hola'')] @ sse_headers
      @ [CallCompletion (example_messages (ascii ''hola'')) True, Write done_event, End], Returned)"
proof -
  let ?w = "example_world (moderation_says False)
         (Resolved (stream_response [ascii ''  '' @ [LF]] Closed))"
  have u: "stream_upstream ?w = [Write done_event, End]"
    by (simp add: stream_upstream_def stream_relay_def
      or_catch_def chunk_frames_def chunk_lines_def line_frames_def trim_def isWhiteSpace_def
      example_world_def stream_response_def ok_def never_throws_def ascii_def LF_def CR_def)
  have "ascii ''  '' \<noteq> []" by (simp add: ascii_def)
  with api_chat_stream_after_prepare [OF example_prepare] u show ?thesis
    by simp
qed

text \<open>
  The handler splits each chunk on its own. A line that arrives in two chunks is
  written as two frames, the second piece as a JSON string; the theorem above
  speaks of chunks of whole lines only.
\<close>

lemma line_split_across_chunks:
  "concat (map chunk_frames [ascii ''data: u'', ascii ''no'' @ [LF]])
   = [ascii ''data: u'' @ [LF, LF],
      ascii ''data: '' @ JSON_stringify (ascii ''no'') @ [LF, LF]]"
  by (simp add: chunk_frames_def chunk_lines_def line_frames_def trim_def isWhiteSpace_def
      startsWith_def ascii_def LF_def CR_def)










end
